theory Spec2Isabelle
  imports Main "HOL-Library.Sublist"
begin

section \<open>Data model\<close>

text \<open>
  The analyser is a userscript that talks to a review server over REST. The JSON values
  it reads become records; a JSON field that may be absent is an \<open>option\<close>.
  Strings are lists of characters.
\<close>

subsection \<open>Diff responses\<close>

text \<open>\<open>GET diff/{path}\<close> answers \<open>{diffs: [{hunks: [{segments: [{type, lines: [{line}]}]}]}]}\<close>.\<close>

record lineItem =
  line :: string

record segment =
  seg_type :: string
  seg_lines :: "lineItem list"

record hunk =
  hunk_segments :: "segment list"

record diff =
  hunks :: "hunk list option"

subsection \<open>Changed files\<close>

text \<open>
  \<open>GET changes\<close> answers a list of changes, each with a \<open>path\<close> object whose fields
  \<open>toString\<close>, \<open>name\<close> and \<open>extension\<close> the script reads. A file without an extension has
  no \<open>extension\<close> field.
\<close>

record pathObject =
  p_toString :: string
  p_name :: string
  p_extension :: "string option"

record rawChange =
  change_path :: pathObject

text \<open>
  The object built by \<open>fetchChangePaths\<close>, and the same object after \<open>fetchChanges\<close> has
  stored the file's segments in it.
\<close>

record changePath =
  path :: string
  name :: string
  extension :: "string option"

record changedFile = changePath +
  segments :: "segment list"

subsection \<open>Comments, tasks and the review server\<close>

record prComment =
  comment_id :: nat
  comment_text :: string

record activityItem =
  comment :: "prComment option"

record taskRequest =
  anchor_id :: nat
  task_text :: string
  task_state :: string

text \<open>
  The state of the review on the server, as far as the script reads and writes it:
  the activity feed (in the order the server lists it), the answers to \<open>GET changes\<close> and
  \<open>GET diff/{path}\<close>, the bodies of the \<open>POST comments\<close> and \<open>POST tasks\<close> requests received so
  far (oldest first), and the id the next created comment gets.
\<close>

record review =
  activities :: "activityItem list"
  changeValues :: "rawChange list"
  diffResponses :: "string \<Rightarrow> diff list option"
  postedComments :: "string list"
  postedTasks :: "taskRequest list"
  nextId :: nat

datatype error = TypeError

section \<open>The review server\<close>

text \<open>
  The server is not part of the script. It is modelled as far as the script's requests
  need: a posted comment becomes a new activity with a fresh id at the head of the feed
  (newest first), a posted task is recorded, and the activity feed is cut at the
  requested limit.
\<close>

definition post_comment :: "string \<Rightarrow> review \<Rightarrow> review" where
  "post_comment txt st =
     st\<lparr>activities := \<lparr>comment = Some \<lparr>comment_id = nextId st, comment_text = txt\<rparr>\<rparr> # activities st,
        postedComments := postedComments st @ [txt],
        nextId := nextId st + 1\<rparr>"

definition post_task :: "taskRequest \<Rightarrow> review \<Rightarrow> review" where
  "post_task t st = st\<lparr>postedTasks := postedTasks st @ [t]\<rparr>"

definition get_activities :: "nat \<Rightarrow> review \<Rightarrow> activityItem list" where
  "get_activities limit st = take limit (activities st)"

section \<open>String operations of the host language\<close>

text \<open>\<open>s.includes(p)\<close>: \<open>p\<close> occurs in \<open>s\<close> as a contiguous substring.\<close>

definition str_includes :: "string \<Rightarrow> string \<Rightarrow> bool" where
  "str_includes s p = sublist p s"

text \<open>
  \<open>s.toLowerCase()\<close> on the letters \<open>A\<close> to \<open>Z\<close>; every other character is kept, which is
  all that matching against the lower-case ASCII patterns of the analysers needs.
\<close>

definition toLowerChar :: "char \<Rightarrow> char" where
  "toLowerChar c =
     (let n = (of_char c :: nat) in if 65 \<le> n \<and> n \<le> 90 then char_of (n + 32) else c)"

definition toLowerCase :: "string \<Rightarrow> string" where
  "toLowerCase s = map toLowerChar s"

section \<open>Change data\<close>

definition fetchChangePaths :: "review \<Rightarrow> changePath list" where
  "fetchChangePaths st =
     map (\<lambda>change. \<lparr>path = p_toString (change_path change),
                     name = p_name (change_path change),
                     extension = p_extension (change_path change)\<rparr>)
         (changeValues st)"

text \<open>
  \<open>forEach\<close> is a fold whose state is the variable the loop body assigns (\<open>segments\<close>).
\<close>

definition extractSegments :: "diff list option \<Rightarrow> segment list" where
  "extractSegments diffs =
     (case diffs of
        None \<Rightarrow> []
      | Some ds \<Rightarrow>
          fold (\<lambda>diff segs.
                  case hunks diff of
                    None \<Rightarrow> segs
                  | Some hs \<Rightarrow> fold (\<lambda>hunk segs'. segs' @ hunk_segments hunk) hs segs)
               ds [])"

definition fetchChangeDetail :: "review \<Rightarrow> string \<Rightarrow> segment list" where
  "fetchChangeDetail st filePath = extractSegments (diffResponses st filePath)"

text \<open>
  \<open>fetchChanges\<close> goes through the files of \<open>fetchChangePaths\<close> in order and stores in each
  one, as its field \<open>segments\<close>, the result of \<open>fetchChangeDetail\<close> on its path; the other
  fields stay as they are.
\<close>

definition fetchChanges :: "review \<Rightarrow> changedFile list" where
  "fetchChanges st =
     map (\<lambda>file. changePath.extend file
                    (changedFile.fields (fetchChangeDetail st (path file))))
         (fetchChangePaths st)"

section \<open>Analyser utilities\<close>

text \<open>
  The callbacks of the source assign variables of the enclosing function; here a callback
  is a function on the value of that variable, and \<open>checkPaths\<close> and \<open>checkLines\<close> thread
  it through their loops.
\<close>

definition checkPaths :: "changedFile list \<Rightarrow> string \<Rightarrow> ('s \<Rightarrow> 's) \<Rightarrow> 's \<Rightarrow> 's" where
  "checkPaths changes pathSubstring callback =
     fold (\<lambda>change s. if str_includes (path change) pathSubstring then callback s else s) changes"

definition checkLines :: "changedFile list \<Rightarrow> string \<Rightarrow> (string \<Rightarrow> 's \<Rightarrow> 's) \<Rightarrow> 's \<Rightarrow> 's" where
  "checkLines changes ext callback =
     fold (\<lambda>change s.
             if extension change \<noteq> Some ext then s
             else fold (\<lambda>segment s'.
                          if seg_type segment \<noteq> ''ADDED'' then s'
                          else fold (\<lambda>lineItem s''. callback (line lineItem) s'')
                                    (seg_lines segment) s')
                       (segments change) s)
          changes"

section \<open>Analysers\<close>

definition CHANGE_THRESHOLD :: nat where
  "CHANGE_THRESHOLD = 100"

definition analyseNumberOfChanges :: "changedFile list \<Rightarrow> string list" where
  "analyseNumberOfChanges changes =
     (let tasks = [];
          numLinesJS = (0::nat);
          numLinesJava = (0::nat);
          numLinesJS = checkLines changes ''js'' (\<lambda>_ n. n + 1) numLinesJS;
          numLinesJava = checkLines changes ''java'' (\<lambda>_ n. n + 1) numLinesJava;
          tasks = (if numLinesJS + numLinesJava > CHANGE_THRESHOLD
                   then tasks @ [''Significant changes - check if automated tests are required.'']
                   else tasks)
      in tasks)"

definition analyseDBScriptSynergy :: "changedFile list \<Rightarrow> string list" where
  "analyseDBScriptSynergy changes =
     (let tasks = [];
          containsMssqlChanges = False;
          containsOracleChanges = False;
          containsMssqlChanges = checkPaths changes ''/mssql/'' (\<lambda>_. True) containsMssqlChanges;
          containsOracleChanges = checkPaths changes ''/oracle/'' (\<lambda>_. True) containsOracleChanges;
          tasks = (if containsMssqlChanges \<and> \<not> containsOracleChanges
                   then tasks @ [''MSSQL updated but not Oracle. Check this is ok.'']
                   else tasks);
          tasks = (if \<not> containsMssqlChanges \<and> containsOracleChanges
                   then tasks @ [''Oracle updated but not MSSQL. Check this is ok.'']
                   else tasks);
          tasks = (if containsMssqlChanges \<or> containsOracleChanges
                   then tasks @ [''(On merge) Notify the team that there are database changes that need to be applied.'']
                   else tasks)
      in tasks)"

definition analyseDropScriptsNeeded :: "changedFile list \<Rightarrow> string list" where
  "analyseDropScriptsNeeded changes =
     (let tasks = [];
          containsCreateTable = False;
          containsDropTable = False;
          containsCreateTable =
            checkLines changes ''sql''
              (\<lambda>line b. if str_includes (toLowerCase line) ''create table'' then True else b)
              containsCreateTable;
          containsDropTable =
            checkLines changes ''sql''
              (\<lambda>line b. if str_includes (toLowerCase line) ''drop table'' then True else b)
              containsDropTable;
          tasks = (if containsCreateTable \<and> \<not> containsDropTable
                   then tasks @ [''Create table but no drop table. Need to update the drop scripts?'']
                   else tasks)
      in tasks)"

definition analyseUseOfDotEquals :: "changedFile list \<Rightarrow> string list" where
  "analyseUseOfDotEquals changes =
     (let tasks = [];
          containsDotEquals = False;
          containsDotEquals =
            checkLines changes ''java''
              (\<lambda>line b. if str_includes line ''.equals'' \<and> \<not> str_includes line ''StringUtils'' then True else b)
              containsDotEquals;
          tasks = (if containsDotEquals
                   then tasks @ [''Found uses of .equals. Review these to check if StringUtils methods are a more appropriate choice.'']
                   else tasks)
      in tasks)"

section \<open>Comments and tasks\<close>

definition PARENT_COMMENT_TEXT :: string where
  "PARENT_COMMENT_TEXT = ''_Auto-generated comment from PR Analyser_''"

text \<open>
  \<open>activityItem?.comment?.text === PARENT_COMMENT_TEXT\<close>: an activity without a comment
  does not match.
\<close>

definition isParentComment :: "activityItem \<Rightarrow> bool" where
  "isParentComment activityItem =
     (case comment activityItem of
        None \<Rightarrow> False
      | Some c \<Rightarrow> comment_text c = PARENT_COMMENT_TEXT)"

definition getParentComment :: "review \<Rightarrow> activityItem option" where
  "getParentComment st = find isParentComment (get_activities 500 st)"

definition addParentComment :: "review \<Rightarrow> activityItem option \<times> review" where
  "addParentComment st =
     (let st' = post_comment PARENT_COMMENT_TEXT st
      in (getParentComment st', st'))"

definition addTask :: "string \<Rightarrow> nat \<Rightarrow> review \<Rightarrow> review" where
  "addTask txt commentId st =
     post_task \<lparr>anchor_id = commentId, task_text = txt, task_state = ''OPEN''\<rparr> st"

section \<open>The orchestrator\<close>

text \<open>
  \<open>parentComment.comment.id\<close> raises a TypeError when no parent comment was found; the
  run then stops with the comment already posted. A run that completes returns no error.
\<close>

definition analyse :: "review \<Rightarrow> error option \<times> review" where
  "analyse st =
     (let (parentComment, st1) = addParentComment st in
      case parentComment of
        None \<Rightarrow> (Some TypeError, st1)
      | Some item \<Rightarrow>
          (case comment item of
             None \<Rightarrow> (Some TypeError, st1)
           | Some c \<Rightarrow>
               (let parentCommentId = comment_id c;
                    changes = fetchChanges st1;
                    tasks = [];
                    tasks = tasks @ analyseNumberOfChanges changes;
                    tasks = tasks @ analyseDBScriptSynergy changes;
                    tasks = tasks @ analyseDropScriptsNeeded changes;
                    tasks = tasks @ analyseUseOfDotEquals changes;
                    tasks = rev tasks
                in (None, fold (\<lambda>task s. addTask task parentCommentId s) tasks st1))))"

section \<open>Specification-level views of a change set\<close>

text \<open>
  These functions are not in the script. They name what the specification talks about:
  the texts of the ADDED lines of the files with a given extension, in diff order; the
  ADDED segments of those files; and the segments of a raw diff with the grouping into
  diffs and hunks removed. The theorems below relate the script's loops to them.
\<close>

definition addedLines :: "string \<Rightarrow> changedFile list \<Rightarrow> string list" where
  "addedLines ext changes =
     concat (map (\<lambda>change.
                    concat (map (\<lambda>segment. map line (seg_lines segment))
                                (filter (\<lambda>segment. seg_type segment = ''ADDED'') (segments change))))
                 (filter (\<lambda>change. extension change = Some ext) changes))"

definition addedSegments :: "string \<Rightarrow> changedFile list \<Rightarrow> segment list list" where
  "addedSegments ext changes =
     map (\<lambda>change. filter (\<lambda>segment. seg_type segment = ''ADDED'') (segments change))
         (filter (\<lambda>change. extension change = Some ext) changes)"

definition segmentLines :: "segment list list \<Rightarrow> string list" where
  "segmentLines segss =
     concat (map (\<lambda>segs. concat (map (\<lambda>segment. map line (seg_lines segment)) segs)) segss)"

definition flattenHunks :: "diff list \<Rightarrow> segment list" where
  "flattenHunks ds =
     concat (map hunk_segments
               (concat (map (\<lambda>d. case hunks d of None \<Rightarrow> [] | Some hs \<Rightarrow> hs) ds)))"

section \<open>Example inputs\<close>

text \<open>Concrete reviews and change sets on which the theorems are instantiated.\<close>

definition emptyReview :: review where
  "emptyReview =
     \<lparr>activities = [], changeValues = [], diffResponses = (\<lambda>_. None),
      postedComments = [], postedTasks = [], nextId = 0\<rparr>"

definition linesSegment :: "string \<Rightarrow> string list \<Rightarrow> segment" where
  "linesSegment ty ls = \<lparr>seg_type = ty, seg_lines = map (\<lambda>l. \<lparr>line = l\<rparr>) ls\<rparr>"

definition sourceFile :: "string \<Rightarrow> string \<Rightarrow> segment list \<Rightarrow> changedFile" where
  "sourceFile p e segs = \<lparr>path = p, name = p, extension = Some e, segments = segs\<rparr>"

definition exampleReview :: review where
  "exampleReview =
     \<lparr>activities = [],
      changeValues =
        [\<lparr>change_path = \<lparr>p_toString = ''web/app.js'', p_name = ''app.js'', p_extension = Some ''js''\<rparr>\<rparr>,
         \<lparr>change_path = \<lparr>p_toString = ''db/mssql/schema.sql'', p_name = ''schema.sql'', p_extension = Some ''sql''\<rparr>\<rparr>,
         \<lparr>change_path = \<lparr>p_toString = ''src/Foo.java'', p_name = ''Foo.java'', p_extension = Some ''java''\<rparr>\<rparr>],
      diffResponses =
        (\<lambda>p. if p = ''web/app.js''
               then Some [\<lparr>hunks = Some [\<lparr>hunk_segments = [linesSegment ''ADDED'' (replicate 150 ''x();'')]\<rparr>]\<rparr>]
             else if p = ''db/mssql/schema.sql''
               then Some [\<lparr>hunks = Some [\<lparr>hunk_segments = [linesSegment ''ADDED'' [''CREATE TABLE foo'']]\<rparr>]\<rparr>]
             else if p = ''src/Foo.java''
               then Some [\<lparr>hunks = Some [\<lparr>hunk_segments = [linesSegment ''ADDED'' [''x.equals(y)'']]\<rparr>]\<rparr>]
             else None),
      postedComments = [], postedTasks = [], nextId = 0\<rparr>"

definition volumeChanges :: "nat \<Rightarrow> nat \<Rightarrow> changedFile list" where
  "volumeChanges n m =
     [sourceFile ''a.js'' ''js'' [linesSegment ''ADDED'' (replicate n ''f();'')],
      sourceFile ''notes.txt'' ''txt'' [],
      sourceFile ''B.java'' ''java''
        [linesSegment ''REMOVED'' [''int old;''], linesSegment ''ADDED'' (replicate m ''int x;'')]]"

definition upperCaseReview :: review where
  "upperCaseReview =
     \<lparr>activities = [],
      changeValues =
        [\<lparr>change_path = \<lparr>p_toString = ''db/Schema.SQL'', p_name = ''Schema.SQL'', p_extension = Some ''SQL''\<rparr>\<rparr>],
      diffResponses =
        (\<lambda>p. Some [\<lparr>hunks = Some [\<lparr>hunk_segments = [linesSegment ''ADDED'' [''create table foo'']]\<rparr>]\<rparr>]),
      postedComments = [], postedTasks = [], nextId = 0\<rparr>"

definition changesWithRemovals :: "changedFile list" where
  "changesWithRemovals =
     [sourceFile ''app.js'' ''js''
        [linesSegment ''REMOVED'' [''old();''], linesSegment ''ADDED'' (replicate 101 ''f();'')],
      sourceFile ''A.java'' ''java''
        [linesSegment ''REMOVED'' [''StringUtils.equals(a, b)''],
         linesSegment ''ADDED'' [''int x;'', ''if (a.equals(b)) {'']],
      sourceFile ''up.sql'' ''sql''
        [linesSegment ''CONTEXT'' [''drop table t''], linesSegment ''ADDED'' [''-- v2'', ''create table t'']]]"

definition changesWithoutRemovals :: "changedFile list" where
  "changesWithoutRemovals =
     [sourceFile ''app.js'' ''js'' [linesSegment ''ADDED'' (replicate 101 ''f();'')],
      sourceFile ''A.java'' ''java'' [linesSegment ''ADDED'' [''int x;'', ''if (a.equals(b)) {'']],
      sourceFile ''notes.txt'' ''txt'' [linesSegment ''ADDED'' [''drop table t'']],
      sourceFile ''up.sql'' ''sql''
        [linesSegment ''ADDED'' [''-- v2'', ''create table t''], linesSegment ''REMOVED'' [''drop table u'']]]"

section \<open>Auxiliary lemmas\<close>

text \<open>
  The nested \<open>forEach\<close> loops of \<open>checkLines\<close> visit exactly the ADDED lines of the files
  with the given extension, once each and in order; the counting and flag-setting
  callbacks then have closed forms, and so has each analyser.
\<close>

lemma fold_append_segments:
  "fold (\<lambda>hunk segs'. segs' @ hunk_segments hunk) hs segs = segs @ concat (map hunk_segments hs)"
  by (induction hs arbitrary: segs) simp_all

lemma fold_diffs_segments:
  "fold (\<lambda>diff segs.
           case hunks diff of
             None \<Rightarrow> segs
           | Some hs \<Rightarrow> fold (\<lambda>hunk segs'. segs' @ hunk_segments hunk) hs segs)
        ds segs
   = segs @ flattenHunks ds"
proof (induction ds arbitrary: segs)
  case Nil
  show ?case by (simp add: flattenHunks_def)
next
  case (Cons d ds)
  show ?case
  proof (cases "hunks d")
    case None
    then show ?thesis using Cons.IH [of segs] by (simp add: flattenHunks_def)
  next
    case (Some hs)
    then show ?thesis
      using Cons.IH [of "segs @ concat (map hunk_segments hs)"]
      by (simp add: flattenHunks_def fold_append_segments)
  qed
qed

lemma extractSegments_Some: "extractSegments (Some ds) = flattenHunks ds"
  by (simp add: extractSegments_def fold_diffs_segments)

lemma fold_lines:
  "fold (\<lambda>lineItem s''. callback (line lineItem) s'') ls s = fold callback (map line ls) s"
  by (induction ls arbitrary: s) simp_all

lemma fold_segments:
  "fold (\<lambda>segment s'.
           if seg_type segment \<noteq> ''ADDED'' then s'
           else fold (\<lambda>lineItem s''. callback (line lineItem) s'') (seg_lines segment) s')
        segs s
   = fold callback
       (concat (map (\<lambda>segment. map line (seg_lines segment))
                    (filter (\<lambda>segment. seg_type segment = ''ADDED'') segs))) s"
  by (induction segs arbitrary: s) (simp_all add: fold_lines)

lemma checkLines_addedLines:
  "checkLines changes ext callback s = fold callback (addedLines ext changes) s"
  unfolding checkLines_def addedLines_def
  by (induction changes arbitrary: s) (simp_all add: fold_segments)

lemma fold_count: "fold (\<lambda>_. Suc) xs n = n + length xs"
  by (induction xs arbitrary: n) simp_all

lemma fold_flag:
  "fold (\<lambda>x b. if P x then True else b) xs b \<longleftrightarrow> b \<or> (\<exists>x\<in>set xs. P x)"
  by (induction xs arbitrary: b) auto

lemma checkPaths_flag:
  "checkPaths changes sub (\<lambda>_. True) b \<longleftrightarrow> b \<or> (\<exists>c\<in>set changes. str_includes (path c) sub)"
  unfolding checkPaths_def
  by (induction changes arbitrary: b) auto

lemma str_includes_iff: "str_includes s p \<longleftrightarrow> (\<exists>pre suf. s = pre @ p @ suf)"
  by (simp add: str_includes_def sublist_def)

lemma addedLines_addedSegments:
  "addedLines ext changes =
     concat (map (\<lambda>segs. concat (map (\<lambda>segment. map line (seg_lines segment)) segs))
                 (addedSegments ext changes))"
  by (simp add: addedLines_def addedSegments_def comp_def)

lemma addedLines_segmentLines:
  "addedLines ext changes = segmentLines (addedSegments ext changes)"
  by (simp only: addedLines_addedSegments segmentLines_def)

lemma toLowerCase_append: "toLowerCase (xs @ ys) = toLowerCase xs @ toLowerCase ys"
  by (simp add: toLowerCase_def)

lemma str_includes_toLowerCase:
  "str_includes l p \<Longrightarrow> str_includes (toLowerCase l) (toLowerCase p)"
proof -
  assume "str_includes l p"
  then obtain pre suf where "l = pre @ p @ suf"
    unfolding str_includes_iff by blast
  then have "toLowerCase l = toLowerCase pre @ toLowerCase p @ toLowerCase suf"
    by (simp add: toLowerCase_append)
  then show ?thesis
    unfolding str_includes_iff by blast
qed

lemma analyseNumberOfChanges_eq:
  "analyseNumberOfChanges changes =
     (if length (addedLines ''js'' changes) + length (addedLines ''java'' changes) > 100
      then [''Significant changes - check if automated tests are required.'']
      else [])"
  by (simp add: analyseNumberOfChanges_def checkLines_addedLines fold_count CHANGE_THRESHOLD_def)

lemma analyseDBScriptSynergy_eq:
  "analyseDBScriptSynergy changes =
     (let m = (\<exists>c\<in>set changes. str_includes (path c) ''/mssql/'');
          orc = (\<exists>c\<in>set changes. str_includes (path c) ''/oracle/'')
      in (if m \<and> \<not> orc then [''MSSQL updated but not Oracle. Check this is ok.''] else [])
       @ (if \<not> m \<and> orc then [''Oracle updated but not MSSQL. Check this is ok.''] else [])
       @ (if m \<or> orc then [''(On merge) Notify the team that there are database changes that need to be applied.''] else []))"
  by (simp add: analyseDBScriptSynergy_def checkPaths_flag Let_def)

lemma analyseDropScriptsNeeded_eq:
  "analyseDropScriptsNeeded changes =
     (if (\<exists>l\<in>set (addedLines ''sql'' changes). str_includes (toLowerCase l) ''create table'')
         \<and> \<not> (\<exists>l\<in>set (addedLines ''sql'' changes). str_includes (toLowerCase l) ''drop table'')
      then [''Create table but no drop table. Need to update the drop scripts?'']
      else [])"
  by (simp add: analyseDropScriptsNeeded_def checkLines_addedLines fold_flag)

lemma analyseUseOfDotEquals_eq:
  "analyseUseOfDotEquals changes =
     (if \<exists>l\<in>set (addedLines ''java'' changes).
           str_includes l ''.equals'' \<and> \<not> str_includes l ''StringUtils''
      then [''Found uses of .equals. Review these to check if StringUtils methods are a more appropriate choice.'']
      else [])"
  by (simp add: analyseUseOfDotEquals_def checkLines_addedLines fold_flag)

lemma isParentComment_new:
  "isParentComment \<lparr>comment = Some \<lparr>comment_id = i, comment_text = PARENT_COMMENT_TEXT\<rparr>\<rparr>"
  by (simp add: isParentComment_def)

lemma getParentComment_post_comment:
  "getParentComment (post_comment PARENT_COMMENT_TEXT st) =
     Some \<lparr>comment = Some \<lparr>comment_id = nextId st, comment_text = PARENT_COMMENT_TEXT\<rparr>\<rparr>"
proof -
  have "get_activities 500 (post_comment PARENT_COMMENT_TEXT st) =
          \<lparr>comment = Some \<lparr>comment_id = nextId st, comment_text = PARENT_COMMENT_TEXT\<rparr>\<rparr>
            # take 499 (activities st)"
    by (simp add: get_activities_def post_comment_def take_Cons')
  then show ?thesis
    by (simp add: getParentComment_def isParentComment_new)
qed

lemma fetchChanges_post_comment: "fetchChanges (post_comment txt st) = fetchChanges st"
  by (simp add: fetchChanges_def fetchChangePaths_def fetchChangeDetail_def post_comment_def)

lemma postedTasks_post_comment: "postedTasks (post_comment txt st) = postedTasks st"
  by (simp add: post_comment_def)

lemma postedTasks_fold_addTask:
  "postedTasks (fold (\<lambda>task s. addTask task i s) ts st) =
     postedTasks st @ map (\<lambda>t. \<lparr>anchor_id = i, task_text = t, task_state = ''OPEN''\<rparr>) ts"
  by (induction ts arbitrary: st) (simp_all add: addTask_def post_task_def)

lemma analyse_eq:
  "analyse st =
     (None,
      fold (\<lambda>task s. addTask task (nextId st) s)
           (rev (analyseNumberOfChanges (fetchChanges st)
                 @ analyseDBScriptSynergy (fetchChanges st)
                 @ analyseDropScriptsNeeded (fetchChanges st)
                 @ analyseUseOfDotEquals (fetchChanges st)))
           (post_comment PARENT_COMMENT_TEXT st))"
  by (simp add: analyse_def addParentComment_def getParentComment_post_comment
      fetchChanges_post_comment Let_def del: rev_append)

lemma analyse_task_texts:
  "map task_text (postedTasks (snd (analyse st))) =
     map task_text (postedTasks st)
     @ rev (analyseNumberOfChanges (fetchChanges st)
            @ analyseDBScriptSynergy (fetchChanges st)
            @ analyseDropScriptsNeeded (fetchChanges st)
            @ analyseUseOfDotEquals (fetchChanges st))"
  by (simp add: analyse_eq postedTasks_fold_addTask postedTasks_post_comment comp_def
      del: rev_append)

lemma length_analyseNumberOfChanges: "length (analyseNumberOfChanges changes) \<le> 1"
  by (simp add: analyseNumberOfChanges_eq)

lemma length_analyseDBScriptSynergy: "length (analyseDBScriptSynergy changes) \<le> 2"
  by (simp add: analyseDBScriptSynergy_eq Let_def)

lemma length_analyseDropScriptsNeeded: "length (analyseDropScriptsNeeded changes) \<le> 1"
  by (simp add: analyseDropScriptsNeeded_eq)

lemma length_analyseUseOfDotEquals: "length (analyseUseOfDotEquals changes) \<le> 1"
  by (simp add: analyseUseOfDotEquals_eq)

lemma addedLines_sourceFile:
  "addedLines ext (sourceFile p e segs # changes) =
     (if e = ext
      then concat (map (\<lambda>segment. map line (seg_lines segment))
                       (filter (\<lambda>segment. seg_type segment = ''ADDED'') segs))
      else [])
     @ addedLines ext changes"
  by (simp add: addedLines_def sourceFile_def)

lemma addedLines_Nil: "addedLines ext [] = []"
  by (simp add: addedLines_def)

lemma lines_linesSegment: "map line (seg_lines (linesSegment ty ls)) = ls"
  by (simp add: linesSegment_def comp_def)

lemma seg_type_linesSegment: "seg_type (linesSegment ty ls) = ty"
  by (simp add: linesSegment_def)

lemmas example_simps =
  addedLines_sourceFile addedLines_Nil lines_linesSegment seg_type_linesSegment

lemma toLowerCase_CREATE_TABLE: "toLowerCase ''CREATE TABLE'' = ''create table''"
  by code_simp

lemma fetchChanges_exampleReview:
  "fetchChanges exampleReview =
     [\<lparr>path = ''web/app.js'', name = ''app.js'', extension = Some ''js'',
       segments = [linesSegment ''ADDED'' (replicate 150 ''x();'')]\<rparr>,
      \<lparr>path = ''db/mssql/schema.sql'', name = ''schema.sql'', extension = Some ''sql'',
       segments = [linesSegment ''ADDED'' [''CREATE TABLE foo'']]\<rparr>,
      \<lparr>path = ''src/Foo.java'', name = ''Foo.java'', extension = Some ''java'',
       segments = [linesSegment ''ADDED'' [''x.equals(y)'']]\<rparr>]"
  by (simp add: fetchChanges_def fetchChangePaths_def fetchChangeDetail_def exampleReview_def
      extractSegments_def changePath.extend_def changedFile.fields_def)

lemma addedLines_exampleReview:
  "addedLines ''js'' (fetchChanges exampleReview) = replicate 150 ''x();''"
  "addedLines ''sql'' (fetchChanges exampleReview) = [''CREATE TABLE foo'']"
  "addedLines ''java'' (fetchChanges exampleReview) = [''x.equals(y)'']"
  by (simp_all add: fetchChanges_exampleReview addedLines_def lines_linesSegment seg_type_linesSegment)

lemma addedLines_volumeChanges:
  "addedLines ''js'' (volumeChanges n m) = replicate n ''f();''"
  "addedLines ''java'' (volumeChanges n m) = replicate m ''int x;''"
  by (simp_all add: volumeChanges_def example_simps)

lemma fetchChanges_upperCaseReview:
  "fetchChanges upperCaseReview =
     [\<lparr>path = ''db/Schema.SQL'', name = ''Schema.SQL'', extension = Some ''SQL'',
       segments = [linesSegment ''ADDED'' [''create table foo'']]\<rparr>]"
  by (simp add: fetchChanges_def fetchChangePaths_def fetchChangeDetail_def upperCaseReview_def
      extractSegments_def changePath.extend_def changedFile.fields_def)

lemma extension_fetchChanges:
  "map extension (fetchChanges st) = map (\<lambda>change. p_extension (change_path change)) (changeValues st)"
  by (simp add: fetchChanges_def fetchChangePaths_def comp_def changePath.extend_def)

lemma addedLines_filter:
  "addedLines ext (filter (\<lambda>change. extension change = Some ext) changes) = addedLines ext changes"
  by (simp add: addedLines_def)

lemma addedLines_other_extension:
  "\<forall>change\<in>set changes. extension change \<noteq> Some ext \<Longrightarrow> addedLines ext changes = []"
  by (induction changes) (simp_all add: addedLines_def)

lemma postedComments_addParentComment:
  "postedComments (snd (addParentComment st)) = postedComments st @ [PARENT_COMMENT_TEXT]"
  by (simp add: addParentComment_def post_comment_def Let_def)

lemma activities_addParentComment:
  "activities (snd (addParentComment st)) =
     \<lparr>comment = Some \<lparr>comment_id = nextId st, comment_text = PARENT_COMMENT_TEXT\<rparr>\<rparr> # activities st"
  by (simp add: addParentComment_def post_comment_def Let_def)

lemma fst_addParentComment:
  "fst (addParentComment st) = getParentComment (snd (addParentComment st))"
  by (simp add: addParentComment_def Let_def)

section \<open>Properties of the script\<close>

subsection \<open>The parent comment\<close>

text \<open>
  C1 (as amended). \<open>addParentComment\<close> posts the sentinel comment on every call, without
  looking first, and then looks it up: each call issues exactly one comment-create request
  and adds one comment with the sentinel text to the review, so two calls in sequence issue
  two create requests; the result is what \<open>getParentComment\<close> finds after the creation. A
  review that holds no sentinel comment holds exactly one after one call.
\<close>

theorem addParentComment_creates_on_every_call:
  "postedComments (snd (addParentComment st)) = postedComments st @ [PARENT_COMMENT_TEXT]
   \<and> postedComments (snd (addParentComment (snd (addParentComment st)))) =
       postedComments st @ [PARENT_COMMENT_TEXT, PARENT_COMMENT_TEXT]
   \<and> length (filter isParentComment (activities (snd (addParentComment st)))) =
       length (filter isParentComment (activities st)) + 1
   \<and> fst (addParentComment st) = getParentComment (snd (addParentComment st))
   \<and> (filter isParentComment (activities st) = []
       \<longrightarrow> length (filter isParentComment (activities (snd (addParentComment st)))) = 1)"
  by (simp add: postedComments_addParentComment activities_addParentComment
      isParentComment_new fst_addParentComment)

text \<open>
  On the empty review, one call leaves one create request and one sentinel comment.
\<close>

theorem addParentComment_creates_on_every_call_witness:
  "filter isParentComment (activities emptyReview) = []
   \<and> postedComments (snd (addParentComment emptyReview)) = [PARENT_COMMENT_TEXT]
   \<and> length (filter isParentComment (activities (snd (addParentComment emptyReview)))) = 1"
proof -
  have "activities emptyReview = []" and "postedComments emptyReview = []"
    by (simp_all add: emptyReview_def)
  then show ?thesis
    using addParentComment_creates_on_every_call [of emptyReview]
    by simp
qed

text \<open>
  The claim as stated (two calls in sequence issue at most one create request, and the
  review never holds more than one sentinel comment) fails on the empty review: after two
  calls the server has received two create requests and the review holds two sentinel
  comments.
\<close>

theorem addParentComment_twice_counterexample:
  "length (postedComments (snd (addParentComment (snd (addParentComment emptyReview))))) = 2
   \<and> length (filter isParentComment
               (activities (snd (addParentComment (snd (addParentComment emptyReview)))))) = 2"
proof -
  have "activities emptyReview = []" and "postedComments emptyReview = []"
    by (simp_all add: emptyReview_def)
  then show ?thesis
    by (simp add: postedComments_addParentComment activities_addParentComment isParentComment_new)
qed

subsection \<open>Order of the published tasks\<close>

text \<open>
  C2. The texts of the tasks that a run of \<open>analyse\<close> posts, in the order the server
  receives them, are the reverse of the concatenation of the outputs of the four analysers
  in the order volume, database synergy, drop scripts, dot-equals on the fetched change
  set; the length of the concatenation is the sum of the four lengths. For a change set
  with 150 added \<open>js\<close> lines, a path containing \<open>/mssql/\<close>, no path containing \<open>/oracle/\<close>,
  an added \<open>sql\<close> line with \<open>CREATE TABLE\<close> and none with a drop, and the added \<open>java\<close> line
  \<open>x.equals(y)\<close>, the concatenation is the five findings volume, MSSQL asymmetry, notify,
  missing drop, dot-equals.
\<close>

theorem analyse_publishes_reversed_concatenation:
  "let changes = fetchChanges st;
       findings = analyseNumberOfChanges changes @ analyseDBScriptSynergy changes
                  @ analyseDropScriptsNeeded changes @ analyseUseOfDotEquals changes
   in map task_text (postedTasks (snd (analyse st))) = map task_text (postedTasks st) @ rev findings
    \<and> length findings =
        length (analyseNumberOfChanges changes) + length (analyseDBScriptSynergy changes)
        + length (analyseDropScriptsNeeded changes) + length (analyseUseOfDotEquals changes)
    \<and> (length (addedLines ''js'' changes) = 150
        \<and> (\<exists>c\<in>set changes. str_includes (path c) ''/mssql/'')
        \<and> (\<forall>c\<in>set changes. \<not> str_includes (path c) ''/oracle/'')
        \<and> (\<exists>l\<in>set (addedLines ''sql'' changes). str_includes l ''CREATE TABLE'')
        \<and> (\<forall>l\<in>set (addedLines ''sql'' changes). \<not> str_includes (toLowerCase l) ''drop table'')
        \<and> ''x.equals(y)'' \<in> set (addedLines ''java'' changes)
        \<longrightarrow> findings =
              [''Significant changes - check if automated tests are required.'',
               ''MSSQL updated but not Oracle. Check this is ok.'',
               ''(On merge) Notify the team that there are database changes that need to be applied.'',
               ''Create table but no drop table. Need to update the drop scripts?'',
               ''Found uses of .equals. Review these to check if StringUtils methods are a more appropriate choice.''])"
proof -
  define changes where "changes = fetchChanges st"
  have scenario:
    "analyseNumberOfChanges changes @ analyseDBScriptSynergy changes
       @ analyseDropScriptsNeeded changes @ analyseUseOfDotEquals changes =
     [''Significant changes - check if automated tests are required.'',
      ''MSSQL updated but not Oracle. Check this is ok.'',
      ''(On merge) Notify the team that there are database changes that need to be applied.'',
      ''Create table but no drop table. Need to update the drop scripts?'',
      ''Found uses of .equals. Review these to check if StringUtils methods are a more appropriate choice.'']"
    if js: "length (addedLines ''js'' changes) = 150"
      and ms: "\<exists>c\<in>set changes. str_includes (path c) ''/mssql/''"
      and orc: "\<forall>c\<in>set changes. \<not> str_includes (path c) ''/oracle/''"
      and cr: "\<exists>l\<in>set (addedLines ''sql'' changes). str_includes l ''CREATE TABLE''"
      and dr: "\<forall>l\<in>set (addedLines ''sql'' changes). \<not> str_includes (toLowerCase l) ''drop table''"
      and eq: "''x.equals(y)'' \<in> set (addedLines ''java'' changes)"
  proof -
    have a1: "analyseNumberOfChanges changes =
                [''Significant changes - check if automated tests are required.'']"
      using js by (simp add: analyseNumberOfChanges_eq)
    have a2: "analyseDBScriptSynergy changes =
                [''MSSQL updated but not Oracle. Check this is ok.'',
                 ''(On merge) Notify the team that there are database changes that need to be applied.'']"
      using ms orc by (simp add: analyseDBScriptSynergy_eq Let_def)
    have "\<exists>l\<in>set (addedLines ''sql'' changes). str_includes (toLowerCase l) ''create table''"
      using cr str_includes_toLowerCase [of _ "''CREATE TABLE''"]
      unfolding toLowerCase_CREATE_TABLE by blast
    then have a3: "analyseDropScriptsNeeded changes =
                [''Create table but no drop table. Need to update the drop scripts?'']"
      using dr by (simp add: analyseDropScriptsNeeded_eq)
    have "str_includes ''x.equals(y)'' ''.equals'' \<and> \<not> str_includes ''x.equals(y)'' ''StringUtils''"
      by code_simp
    then have "\<exists>l\<in>set (addedLines ''java'' changes).
                 str_includes l ''.equals'' \<and> \<not> str_includes l ''StringUtils''"
      using eq by blast
    then have a4: "analyseUseOfDotEquals changes =
                [''Found uses of .equals. Review these to check if StringUtils methods are a more appropriate choice.'']"
      by (simp only: analyseUseOfDotEquals_eq if_True)
    show ?thesis
      by (simp only: a1 a2 a3 a4 append_Cons append_Nil)
  qed
  have texts: "map task_text (postedTasks (snd (analyse st))) =
                 map task_text (postedTasks st)
                 @ rev (analyseNumberOfChanges changes @ analyseDBScriptSynergy changes
                        @ analyseDropScriptsNeeded changes @ analyseUseOfDotEquals changes)"
    unfolding changes_def by (rule analyse_task_texts)
  have len: "length (analyseNumberOfChanges changes @ analyseDBScriptSynergy changes
                     @ analyseDropScriptsNeeded changes @ analyseUseOfDotEquals changes) =
             length (analyseNumberOfChanges changes) + length (analyseDBScriptSynergy changes)
             + length (analyseDropScriptsNeeded changes) + length (analyseUseOfDotEquals changes)"
    by simp
  show ?thesis
    unfolding Let_def changes_def [symmetric]
    using texts len scenario by blast
qed

text \<open>
  The scenario on a concrete review: the five tasks arrive in reverse order.
\<close>

theorem analyse_publishes_reversed_concatenation_witness:
  "map task_text (postedTasks (snd (analyse exampleReview))) =
     [''Found uses of .equals. Review these to check if StringUtils methods are a more appropriate choice.'',
      ''Create table but no drop table. Need to update the drop scripts?'',
      ''(On merge) Notify the team that there are database changes that need to be applied.'',
      ''MSSQL updated but not Oracle. Check this is ok.'',
      ''Significant changes - check if automated tests are required.'']"
proof -
  have js: "length (addedLines ''js'' (fetchChanges exampleReview)) = 150"
    by (simp add: addedLines_exampleReview)
  have ms: "\<exists>c\<in>set (fetchChanges exampleReview). str_includes (path c) ''/mssql/''"
    unfolding fetchChanges_exampleReview by code_simp
  have orc: "\<forall>c\<in>set (fetchChanges exampleReview). \<not> str_includes (path c) ''/oracle/''"
    unfolding fetchChanges_exampleReview by code_simp
  have cr: "\<exists>l\<in>set (addedLines ''sql'' (fetchChanges exampleReview)). str_includes l ''CREATE TABLE''"
    unfolding addedLines_exampleReview by code_simp
  have dr: "\<forall>l\<in>set (addedLines ''sql'' (fetchChanges exampleReview)).
              \<not> str_includes (toLowerCase l) ''drop table''"
    unfolding addedLines_exampleReview by code_simp
  have eq: "''x.equals(y)'' \<in> set (addedLines ''java'' (fetchChanges exampleReview))"
    by (simp add: addedLines_exampleReview)
  note run = analyse_publishes_reversed_concatenation [of exampleReview, unfolded Let_def]
  have findings:
    "analyseNumberOfChanges (fetchChanges exampleReview)
       @ analyseDBScriptSynergy (fetchChanges exampleReview)
       @ analyseDropScriptsNeeded (fetchChanges exampleReview)
       @ analyseUseOfDotEquals (fetchChanges exampleReview) =
     [''Significant changes - check if automated tests are required.'',
      ''MSSQL updated but not Oracle. Check this is ok.'',
      ''(On merge) Notify the team that there are database changes that need to be applied.'',
      ''Create table but no drop table. Need to update the drop scripts?'',
      ''Found uses of .equals. Review these to check if StringUtils methods are a more appropriate choice.'']"
    using run js ms orc cr dr eq by blast
  have "map task_text (postedTasks (snd (analyse exampleReview))) =
          map task_text (postedTasks exampleReview)
          @ rev (analyseNumberOfChanges (fetchChanges exampleReview)
                 @ analyseDBScriptSynergy (fetchChanges exampleReview)
                 @ analyseDropScriptsNeeded (fetchChanges exampleReview)
                 @ analyseUseOfDotEquals (fetchChanges exampleReview))"
    using run by blast
  then show ?thesis
    unfolding findings by (simp add: exampleReview_def)
qed

subsection \<open>Change volume\<close>

text \<open>
  C3. \<open>analyseNumberOfChanges\<close> emits its one finding exactly when the number of ADDED
  lines in files with extension \<open>js\<close> plus the number in files with extension \<open>java\<close> is
  greater than 100, and nothing otherwise: 101 such lines give one finding, 100 give none.
\<close>

theorem analyseNumberOfChanges_threshold:
  "analyseNumberOfChanges changes =
     (if length (addedLines ''js'' changes) + length (addedLines ''java'' changes) > 100
      then [''Significant changes - check if automated tests are required.'']
      else [])
   \<and> (length (addedLines ''js'' changes) + length (addedLines ''java'' changes) = 101
        \<longrightarrow> length (analyseNumberOfChanges changes) = 1)
   \<and> (length (addedLines ''js'' changes) + length (addedLines ''java'' changes) = 100
        \<longrightarrow> length (analyseNumberOfChanges changes) = 0)"
  by (simp add: analyseNumberOfChanges_eq)

text \<open>
  Change sets with 60 + 41 and with 60 + 40 added lines (and removed lines and a file of
  another extension beside them).
\<close>

theorem analyseNumberOfChanges_threshold_witness:
  "length (addedLines ''js'' (volumeChanges 60 41)) + length (addedLines ''java'' (volumeChanges 60 41)) = 101
   \<and> length (analyseNumberOfChanges (volumeChanges 60 41)) = 1
   \<and> length (addedLines ''js'' (volumeChanges 60 40)) + length (addedLines ''java'' (volumeChanges 60 40)) = 100
   \<and> length (analyseNumberOfChanges (volumeChanges 60 40)) = 0"
  using analyseNumberOfChanges_threshold [of "volumeChanges 60 41"]
        analyseNumberOfChanges_threshold [of "volumeChanges 60 40"]
  by (simp add: addedLines_volumeChanges)

subsection \<open>Database script synergy\<close>

text \<open>
  C4. \<open>analyseDBScriptSynergy\<close> tests the paths by substring (\<open>str_includes s p\<close> holds
  exactly when \<open>p\<close> occurs somewhere in \<open>s\<close>): with a path containing \<open>/mssql/\<close> and none
  containing \<open>/oracle/\<close> it yields the two findings asymmetry (naming Oracle as not updated)
  and notify; with both it yields notify only; with neither it yields nothing.
\<close>

theorem analyseDBScriptSynergy_substring_cases:
  "(str_includes s p \<longleftrightarrow> (\<exists>pre suf. s = pre @ p @ suf))
   \<and> ((\<exists>c\<in>set changes. str_includes (path c) ''/mssql/'')
        \<and> \<not> (\<exists>c\<in>set changes. str_includes (path c) ''/oracle/'')
       \<longrightarrow> analyseDBScriptSynergy changes =
             [''MSSQL updated but not Oracle. Check this is ok.'',
              ''(On merge) Notify the team that there are database changes that need to be applied.''])
   \<and> ((\<exists>c\<in>set changes. str_includes (path c) ''/mssql/'')
        \<and> (\<exists>c\<in>set changes. str_includes (path c) ''/oracle/'')
       \<longrightarrow> analyseDBScriptSynergy changes =
             [''(On merge) Notify the team that there are database changes that need to be applied.''])
   \<and> (\<not> (\<exists>c\<in>set changes. str_includes (path c) ''/mssql/'')
        \<and> \<not> (\<exists>c\<in>set changes. str_includes (path c) ''/oracle/'')
       \<longrightarrow> analyseDBScriptSynergy changes = [])"
  by (simp add: analyseDBScriptSynergy_eq Let_def str_includes_iff)

text \<open>
  One change set for each of the three cases.
\<close>

theorem analyseDBScriptSynergy_substring_cases_witness:
  "length (analyseDBScriptSynergy [sourceFile ''db/mssql/v2/up.sql'' ''sql'' []]) = 2
   \<and> length (analyseDBScriptSynergy [sourceFile ''db/mssql/up.sql'' ''sql'' [],
                                      sourceFile ''db/oracle/up.sql'' ''sql'' []]) = 1
   \<and> length (analyseDBScriptSynergy [sourceFile ''doc/readme.md'' ''md'' []]) = 0"
proof -
  have m1: "str_includes ''db/mssql/v2/up.sql'' ''/mssql/''"
    and o1: "\<not> str_includes ''db/mssql/v2/up.sql'' ''/oracle/''"
    and m2: "str_includes ''db/mssql/up.sql'' ''/mssql/''"
    and o2: "str_includes ''db/oracle/up.sql'' ''/oracle/''"
    and m3: "\<not> str_includes ''doc/readme.md'' ''/mssql/''"
    and o3: "\<not> str_includes ''doc/readme.md'' ''/oracle/''"
    by code_simp+
  show ?thesis
    using analyseDBScriptSynergy_substring_cases
            [of "''''" "''''" "[sourceFile ''db/mssql/v2/up.sql'' ''sql'' []]"]
          analyseDBScriptSynergy_substring_cases
            [of "''''" "''''" "[sourceFile ''db/mssql/up.sql'' ''sql'' [],
                                sourceFile ''db/oracle/up.sql'' ''sql'' []]"]
          analyseDBScriptSynergy_substring_cases
            [of "''''" "''''" "[sourceFile ''doc/readme.md'' ''md'' []]"]
          m1 o1 m2 o2 m3 o3
    by (simp add: sourceFile_def)
qed

subsection \<open>Missing drop scripts\<close>

text \<open>
  C5. \<open>analyseDropScriptsNeeded\<close> looks at the lower-cased ADDED lines of \<open>sql\<close> files: when
  one of them contains \<open>create table\<close> and none contains \<open>drop table\<close> it yields its one
  finding; when one contains \<open>drop table\<close> it yields nothing. The match ignores letter case:
  any spelling \<open>p\<close> whose lower-case form is \<open>drop table\<close> (or \<open>q\<close> for \<open>create table\<close>)
  occurring in an added line counts.
\<close>

theorem analyseDropScriptsNeeded_create_without_drop:
  "((\<exists>l\<in>set (addedLines ''sql'' changes). str_includes (toLowerCase l) ''create table'')
     \<and> \<not> (\<exists>l\<in>set (addedLines ''sql'' changes). str_includes (toLowerCase l) ''drop table'')
    \<longrightarrow> analyseDropScriptsNeeded changes =
          [''Create table but no drop table. Need to update the drop scripts?''])
   \<and> ((\<exists>l\<in>set (addedLines ''sql'' changes). str_includes (toLowerCase l) ''drop table'')
       \<longrightarrow> analyseDropScriptsNeeded changes = [])
   \<and> (toLowerCase p = ''drop table'' \<and> (\<exists>l\<in>set (addedLines ''sql'' changes). str_includes l p)
       \<longrightarrow> analyseDropScriptsNeeded changes = [])
   \<and> (toLowerCase q = ''create table'' \<and> (\<exists>l\<in>set (addedLines ''sql'' changes). str_includes l q)
        \<and> \<not> (\<exists>l\<in>set (addedLines ''sql'' changes). str_includes (toLowerCase l) ''drop table'')
       \<longrightarrow> length (analyseDropScriptsNeeded changes) = 1)"
proof -
  have drop: "\<exists>l\<in>set (addedLines ''sql'' changes). str_includes (toLowerCase l) ''drop table''"
    if "toLowerCase p = ''drop table''" "\<exists>l\<in>set (addedLines ''sql'' changes). str_includes l p"
    using that str_includes_toLowerCase [of _ p] by auto
  have create: "\<exists>l\<in>set (addedLines ''sql'' changes). str_includes (toLowerCase l) ''create table''"
    if "toLowerCase q = ''create table''" "\<exists>l\<in>set (addedLines ''sql'' changes). str_includes l q"
    using that str_includes_toLowerCase [of _ q] by auto
  show ?thesis
    using drop create by (auto simp: analyseDropScriptsNeeded_eq)
qed

text \<open>
  \<open>CREATE TABLE foo\<close> alone gives the finding; with \<open>Drop Table foo\<close> added in another
  \<open>sql\<close> file there is none.
\<close>

theorem analyseDropScriptsNeeded_create_without_drop_witness:
  "analyseDropScriptsNeeded
     [sourceFile ''db/up.sql'' ''sql'' [linesSegment ''ADDED'' [''CREATE TABLE foo'']]] =
     [''Create table but no drop table. Need to update the drop scripts?'']
   \<and> analyseDropScriptsNeeded
       [sourceFile ''db/up.sql'' ''sql'' [linesSegment ''ADDED'' [''CREATE TABLE foo'']],
        sourceFile ''db/down.sql'' ''sql'' [linesSegment ''ADDED'' [''Drop Table foo'']]] = []"
proof -
  have c: "toLowerCase ''CREATE TABLE'' = ''create table''"
    and d: "toLowerCase ''Drop Table'' = ''drop table''"
    and c1: "str_includes ''CREATE TABLE foo'' ''CREATE TABLE''"
    and c2: "str_includes (toLowerCase ''CREATE TABLE foo'') ''create table''"
    and d1: "str_includes ''Drop Table foo'' ''Drop Table''"
    and d2: "\<not> str_includes (toLowerCase ''CREATE TABLE foo'') ''drop table''"
    by code_simp+
  show ?thesis
    using analyseDropScriptsNeeded_create_without_drop
            [of "[sourceFile ''db/up.sql'' ''sql'' [linesSegment ''ADDED'' [''CREATE TABLE foo'']]]"
                "''Drop Table''" "''CREATE TABLE''"]
          analyseDropScriptsNeeded_create_without_drop
            [of "[sourceFile ''db/up.sql'' ''sql'' [linesSegment ''ADDED'' [''CREATE TABLE foo'']],
                  sourceFile ''db/down.sql'' ''sql'' [linesSegment ''ADDED'' [''Drop Table foo'']]]"
                "''Drop Table''" "''CREATE TABLE''"]
          c d c1 c2 d1 d2
    by (simp add: example_simps)
qed

subsection \<open>Use of dot-equals\<close>

text \<open>
  C6. \<open>analyseUseOfDotEquals\<close> yields its one finding if and only if some ADDED line of a
  \<open>java\<close> file contains \<open>.equals\<close> and does not contain \<open>StringUtils\<close>, and nothing
  otherwise. The added line \<open>a.equals(b)\<close> gives one finding, the added line
  \<open>StringUtils.equals(a,b)\<close> gives none.
\<close>

theorem analyseUseOfDotEquals_iff:
  "(analyseUseOfDotEquals changes =
      [''Found uses of .equals. Review these to check if StringUtils methods are a more appropriate choice.'']
    \<longleftrightarrow> (\<exists>l\<in>set (addedLines ''java'' changes).
           str_includes l ''.equals'' \<and> \<not> str_includes l ''StringUtils''))
   \<and> (analyseUseOfDotEquals changes = []
    \<longleftrightarrow> \<not> (\<exists>l\<in>set (addedLines ''java'' changes).
           str_includes l ''.equals'' \<and> \<not> str_includes l ''StringUtils''))
   \<and> length (analyseUseOfDotEquals
               [sourceFile f ''java'' [linesSegment ''ADDED'' [''a.equals(b)'']]]) = 1
   \<and> length (analyseUseOfDotEquals
               [sourceFile f ''java'' [linesSegment ''ADDED'' [''StringUtils.equals(a,b)'']]]) = 0"
proof -
  have "str_includes ''a.equals(b)'' ''.equals'' \<and> \<not> str_includes ''a.equals(b)'' ''StringUtils''"
    by code_simp
  moreover have "str_includes ''StringUtils.equals(a,b)'' ''StringUtils''"
    by code_simp
  ultimately show ?thesis
    by (simp add: analyseUseOfDotEquals_eq example_simps)
qed

text \<open>
  A line with \<open>StringUtils\<close> beside a line with a plain \<open>.equals\<close>: the second one triggers
  the finding.
\<close>

theorem analyseUseOfDotEquals_iff_witness:
  "analyseUseOfDotEquals
     [sourceFile ''A.java'' ''java''
        [linesSegment ''ADDED'' [''StringUtils.equals(a,b)'', ''if (a.equals(b)) {'']]] =
     [''Found uses of .equals. Review these to check if StringUtils methods are a more appropriate choice.'']"
proof -
  have "str_includes ''if (a.equals(b)) {'' ''.equals''
        \<and> \<not> str_includes ''if (a.equals(b)) {'' ''StringUtils''"
    by code_simp
  then show ?thesis
    using analyseUseOfDotEquals_iff
            [of "[sourceFile ''A.java'' ''java''
                    [linesSegment ''ADDED'' [''StringUtils.equals(a,b)'', ''if (a.equals(b)) {'']]]"]
    by (simp add: example_simps)
qed

subsection \<open>Flattening a raw diff\<close>

text \<open>
  C7. \<open>extractSegments\<close> returns the empty list for an absent and for an empty raw diff,
  skips a diff entry without hunks, and otherwise returns the segments of all hunks of all
  diffs in source order, each segment unchanged (so with its lines in order and its change
  kind).
\<close>

theorem extractSegments_flattens:
  "extractSegments None = []
   \<and> extractSegments (Some []) = []
   \<and> extractSegments (Some (ds1 @ [\<lparr>hunks = None\<rparr>] @ ds2)) = extractSegments (Some (ds1 @ ds2))
   \<and> extractSegments (Some ds) = flattenHunks ds"
  by (simp add: extractSegments_Some flattenHunks_def) (simp add: extractSegments_def)

text \<open>
  Two diffs with hunks around one without.
\<close>

theorem extractSegments_flattens_witness:
  "extractSegments
     (Some [\<lparr>hunks = Some [\<lparr>hunk_segments = [linesSegment ''CONTEXT'' [''a''], linesSegment ''ADDED'' [''b'', ''c'']]\<rparr>,
                            \<lparr>hunk_segments = [linesSegment ''REMOVED'' [''d'']]\<rparr>]\<rparr>,
            \<lparr>hunks = None\<rparr>,
            \<lparr>hunks = Some [\<lparr>hunk_segments = [linesSegment ''ADDED'' [''e'']]\<rparr>]\<rparr>]) =
     [linesSegment ''CONTEXT'' [''a''], linesSegment ''ADDED'' [''b'', ''c''],
      linesSegment ''REMOVED'' [''d''], linesSegment ''ADDED'' [''e'']]"
  using extractSegments_flattens
          [of "[]" "[]"
              "[\<lparr>hunks = Some [\<lparr>hunk_segments = [linesSegment ''CONTEXT'' [''a''], linesSegment ''ADDED'' [''b'', ''c'']]\<rparr>,
                                 \<lparr>hunk_segments = [linesSegment ''REMOVED'' [''d'']]\<rparr>]\<rparr>,
                 \<lparr>hunks = None\<rparr>,
                 \<lparr>hunks = Some [\<lparr>hunk_segments = [linesSegment ''ADDED'' [''e'']]\<rparr>]\<rparr>]"]
  by (simp add: flattenHunks_def)

subsection \<open>File extensions\<close>

text \<open>
  C8 (as amended). The extension of every changed file is the extension string the server
  reports, unchanged (nothing lower-cases it). The line scans compare it with the wanted
  extension exactly, so they read only the files whose reported extension is that very
  string, and read nothing when there is none.
\<close>

theorem extension_reported_verbatim:
  "map extension (fetchChanges st) =
     map (\<lambda>change. p_extension (change_path change)) (changeValues st)
   \<and> checkLines changes ext callback s =
       checkLines (filter (\<lambda>change. extension change = Some ext) changes) ext callback s
   \<and> ((\<forall>change\<in>set changes. extension change \<noteq> Some ext)
       \<longrightarrow> checkLines changes ext callback s = s)"
  by (simp add: extension_fetchChanges checkLines_addedLines addedLines_filter
      addedLines_other_extension)

text \<open>
  A file reported with extension \<open>SQL\<close> keeps it and is not read by a scan for \<open>sql\<close>.
\<close>

theorem extension_reported_verbatim_witness:
  "map extension (fetchChanges upperCaseReview) = [Some ''SQL'']
   \<and> checkLines (fetchChanges upperCaseReview) ''sql'' (\<lambda>_ n. Suc n) (0::nat) = 0"
proof -
  have "\<forall>change\<in>set (fetchChanges upperCaseReview). extension change \<noteq> Some ''sql''"
    by (simp add: fetchChanges_upperCaseReview)
  moreover have "map (\<lambda>change. p_extension (change_path change)) (changeValues upperCaseReview)
                 = [Some ''SQL'']"
    by (simp add: upperCaseReview_def)
  ultimately show ?thesis
    using extension_reported_verbatim
            [of upperCaseReview "fetchChanges upperCaseReview" "''sql''" "\<lambda>_ n. Suc n" "0::nat"]
    by simp
qed

text \<open>
  The claim as stated (extensions are lower-cased, so that the analysers match whatever
  letter case the server reports) fails for a file reported with extension \<open>SQL\<close> and an
  added \<open>create table\<close> line: the extension stays \<open>SQL\<close>, and the drop-script analyser
  finds nothing, where it would have a finding had the extension been lower-cased.
\<close>

theorem extension_not_lower_cased_counterexample:
  "map extension (fetchChanges upperCaseReview) = [Some ''SQL'']
   \<and> Some ''SQL'' \<noteq> Some (toLowerCase ''SQL'')
   \<and> analyseDropScriptsNeeded (fetchChanges upperCaseReview) = []
   \<and> analyseDropScriptsNeeded
        (map (\<lambda>change. change\<lparr>extension := map_option toLowerCase (extension change)\<rparr>)
             (fetchChanges upperCaseReview)) =
       [''Create table but no drop table. Need to update the drop scripts?'']"
proof -
  have low: "toLowerCase ''SQL'' = ''sql''"
    and c: "str_includes (toLowerCase ''create table foo'') ''create table''"
    and d: "\<not> str_includes (toLowerCase ''create table foo'') ''drop table''"
    by code_simp+
  have none: "addedLines ''sql'' (fetchChanges upperCaseReview) = []"
    by (simp add: fetchChanges_upperCaseReview addedLines_def)
  have some: "addedLines ''sql''
                (map (\<lambda>change. change\<lparr>extension := map_option toLowerCase (extension change)\<rparr>)
                     (fetchChanges upperCaseReview)) = [''create table foo'']"
    by (simp add: fetchChanges_upperCaseReview addedLines_def low lines_linesSegment
        seg_type_linesSegment)
  have ext: "map extension (fetchChanges upperCaseReview) = [Some ''SQL'']"
    by (simp add: fetchChanges_upperCaseReview)
  have neq: "Some ''SQL'' \<noteq> Some (toLowerCase ''SQL'')"
    by (simp add: low)
  have missed: "analyseDropScriptsNeeded (fetchChanges upperCaseReview) = []"
    by (simp add: analyseDropScriptsNeeded_eq none)
  have found: "analyseDropScriptsNeeded
        (map (\<lambda>change. change\<lparr>extension := map_option toLowerCase (extension change)\<rparr>)
             (fetchChanges upperCaseReview)) =
       [''Create table but no drop table. Need to update the drop scripts?'']"
    using c d by (simp add: analyseDropScriptsNeeded_eq some)
  show ?thesis
    using ext neq missed found by (intro conjI)
qed

subsection \<open>Only ADDED lines are read\<close>

text \<open>
  C9. Each line-scanning analyser is a function of the lines of the ADDED segments of the
  files with its extensions, and of all of them: the volume analyser counts every line of
  every ADDED segment of the \<open>js\<close> and \<open>java\<close> files, the drop-script analyser tests every
  such line of the \<open>sql\<close> files for both patterns, the dot-equals analyser tests every such
  line of the \<open>java\<close> files, and \<open>checkLines\<close> calls its callback on exactly these lines, in
  order. So two change sets that have the same ADDED segments in the files of an
  analyser's extensions (and may differ in every REMOVED and CONTEXT segment and in every
  other file) get the same output from that analyser.
\<close>

theorem analysers_depend_on_added_segments_only:
  "checkLines changes1 e callback s =
     fold callback (segmentLines (addedSegments e changes1)) s
   \<and> analyseNumberOfChanges changes1 =
       (if length (segmentLines (addedSegments ''js'' changes1))
           + length (segmentLines (addedSegments ''java'' changes1)) > 100
        then [''Significant changes - check if automated tests are required.'']
        else [])
   \<and> analyseDropScriptsNeeded changes1 =
       (if (\<exists>l\<in>set (segmentLines (addedSegments ''sql'' changes1)).
              str_includes (toLowerCase l) ''create table'')
           \<and> \<not> (\<exists>l\<in>set (segmentLines (addedSegments ''sql'' changes1)).
                  str_includes (toLowerCase l) ''drop table'')
        then [''Create table but no drop table. Need to update the drop scripts?'']
        else [])
   \<and> analyseUseOfDotEquals changes1 =
       (if \<exists>l\<in>set (segmentLines (addedSegments ''java'' changes1)).
             str_includes l ''.equals'' \<and> \<not> str_includes l ''StringUtils''
        then [''Found uses of .equals. Review these to check if StringUtils methods are a more appropriate choice.'']
        else [])
   \<and> (addedSegments ''js'' changes1 = addedSegments ''js'' changes2
        \<and> addedSegments ''java'' changes1 = addedSegments ''java'' changes2
       \<longrightarrow> analyseNumberOfChanges changes1 = analyseNumberOfChanges changes2)
   \<and> (addedSegments ''sql'' changes1 = addedSegments ''sql'' changes2
       \<longrightarrow> analyseDropScriptsNeeded changes1 = analyseDropScriptsNeeded changes2)
   \<and> (addedSegments ''java'' changes1 = addedSegments ''java'' changes2
       \<longrightarrow> analyseUseOfDotEquals changes1 = analyseUseOfDotEquals changes2)"
proof -
  have every: "checkLines changes1 e callback s =
                 fold callback (segmentLines (addedSegments e changes1)) s"
    by (simp only: checkLines_addedLines addedLines_segmentLines)
  have volume: "analyseNumberOfChanges changes =
       (if length (segmentLines (addedSegments ''js'' changes))
           + length (segmentLines (addedSegments ''java'' changes)) > 100
        then [''Significant changes - check if automated tests are required.'']
        else [])" for changes
    by (simp only: analyseNumberOfChanges_eq addedLines_segmentLines)
  have drops: "analyseDropScriptsNeeded changes =
       (if (\<exists>l\<in>set (segmentLines (addedSegments ''sql'' changes)).
              str_includes (toLowerCase l) ''create table'')
           \<and> \<not> (\<exists>l\<in>set (segmentLines (addedSegments ''sql'' changes)).
                  str_includes (toLowerCase l) ''drop table'')
        then [''Create table but no drop table. Need to update the drop scripts?'']
        else [])" for changes
    by (simp only: analyseDropScriptsNeeded_eq addedLines_segmentLines)
  have equals: "analyseUseOfDotEquals changes =
       (if \<exists>l\<in>set (segmentLines (addedSegments ''java'' changes)).
             str_includes l ''.equals'' \<and> \<not> str_includes l ''StringUtils''
        then [''Found uses of .equals. Review these to check if StringUtils methods are a more appropriate choice.'']
        else [])" for changes
    by (simp only: analyseUseOfDotEquals_eq addedLines_segmentLines)
  have same_volume: "analyseNumberOfChanges changes1 = analyseNumberOfChanges changes2"
    if "addedSegments ''js'' changes1 = addedSegments ''js'' changes2"
      and "addedSegments ''java'' changes1 = addedSegments ''java'' changes2"
    using that by (simp only: volume)
  have same_drops: "analyseDropScriptsNeeded changes1 = analyseDropScriptsNeeded changes2"
    if "addedSegments ''sql'' changes1 = addedSegments ''sql'' changes2"
    using that by (simp only: drops)
  have same_equals: "analyseUseOfDotEquals changes1 = analyseUseOfDotEquals changes2"
    if "addedSegments ''java'' changes1 = addedSegments ''java'' changes2"
    using that by (simp only: equals)
  show ?thesis
    using every volume [of changes1] drops [of changes1] equals [of changes1]
      same_volume same_drops same_equals
    by (intro conjI impI) (erule conjE | assumption)+
qed

text \<open>
  Two different change sets with the same ADDED segments in their \<open>js\<close>, \<open>java\<close> and \<open>sql\<close>
  files: 101 added \<open>js\<close> lines, a plain \<open>.equals\<close> in the second added \<open>java\<close> line, a
  \<open>create table\<close> in the second added \<open>sql\<close> line. One has a \<open>StringUtils\<close> line and a
  \<open>drop table\<close> line in REMOVED and CONTEXT segments, the other a \<open>drop table\<close> line in a
  \<open>txt\<close> file and in a REMOVED segment. All three analysers emit their finding on both.
\<close>

theorem analysers_depend_on_added_segments_only_witness:
  "changesWithRemovals \<noteq> changesWithoutRemovals
   \<and> analyseNumberOfChanges changesWithRemovals = analyseNumberOfChanges changesWithoutRemovals
   \<and> analyseDropScriptsNeeded changesWithRemovals = analyseDropScriptsNeeded changesWithoutRemovals
   \<and> analyseUseOfDotEquals changesWithRemovals = analyseUseOfDotEquals changesWithoutRemovals
   \<and> analyseNumberOfChanges changesWithRemovals =
       [''Significant changes - check if automated tests are required.'']
   \<and> analyseDropScriptsNeeded changesWithRemovals =
       [''Create table but no drop table. Need to update the drop scripts?'']
   \<and> analyseUseOfDotEquals changesWithRemovals =
       [''Found uses of .equals. Review these to check if StringUtils methods are a more appropriate choice.'']"
proof -
  have js: "addedSegments ''js'' changesWithRemovals = addedSegments ''js'' changesWithoutRemovals"
    by (simp add: addedSegments_def changesWithRemovals_def changesWithoutRemovals_def
        sourceFile_def linesSegment_def)
  have java: "addedSegments ''java'' changesWithRemovals = addedSegments ''java'' changesWithoutRemovals"
    by (simp add: addedSegments_def changesWithRemovals_def changesWithoutRemovals_def
        sourceFile_def linesSegment_def)
  have sql: "addedSegments ''sql'' changesWithRemovals = addedSegments ''sql'' changesWithoutRemovals"
    by (simp add: addedSegments_def changesWithRemovals_def changesWithoutRemovals_def
        sourceFile_def linesSegment_def)
  have differ: "changesWithRemovals \<noteq> changesWithoutRemovals"
    by (simp add: changesWithRemovals_def changesWithoutRemovals_def)
  have js_lines: "segmentLines (addedSegments ''js'' changesWithRemovals) = replicate 101 ''f();''"
    by (simp add: segmentLines_def addedSegments_def changesWithRemovals_def sourceFile_def
        seg_type_linesSegment lines_linesSegment)
  have java_lines: "segmentLines (addedSegments ''java'' changesWithRemovals) =
                      [''int x;'', ''if (a.equals(b)) {'']"
    by (simp add: segmentLines_def addedSegments_def changesWithRemovals_def sourceFile_def
        seg_type_linesSegment lines_linesSegment)
  have sql_lines: "segmentLines (addedSegments ''sql'' changesWithRemovals) =
                     [''-- v2'', ''create table t'']"
    by (simp add: segmentLines_def addedSegments_def changesWithRemovals_def sourceFile_def
        seg_type_linesSegment lines_linesSegment)
  have e: "str_includes ''if (a.equals(b)) {'' ''.equals''
           \<and> \<not> str_includes ''if (a.equals(b)) {'' ''StringUtils''"
    and c: "str_includes (toLowerCase ''create table t'') ''create table''"
    and d1: "\<not> str_includes (toLowerCase ''-- v2'') ''drop table''"
    and d2: "\<not> str_includes (toLowerCase ''create table t'') ''drop table''"
    by code_simp+
  note run = analysers_depend_on_added_segments_only
               [of changesWithRemovals "''js''" "\<lambda>_ n. Suc n" "0::nat" changesWithoutRemovals]
  note closed_volume = run [THEN conjunct2, THEN conjunct1]
  note closed_drops = run [THEN conjunct2, THEN conjunct2, THEN conjunct1]
  note closed_equals = run [THEN conjunct2, THEN conjunct2, THEN conjunct2, THEN conjunct1]
  note agree = run [THEN conjunct2, THEN conjunct2, THEN conjunct2, THEN conjunct2]
  have same:
    "analyseNumberOfChanges changesWithRemovals = analyseNumberOfChanges changesWithoutRemovals"
    "analyseDropScriptsNeeded changesWithRemovals = analyseDropScriptsNeeded changesWithoutRemovals"
    "analyseUseOfDotEquals changesWithRemovals = analyseUseOfDotEquals changesWithoutRemovals"
    by (rule agree [THEN conjunct1, THEN mp, OF conjI, OF js java]
        agree [THEN conjunct2, THEN conjunct1, THEN mp, OF sql]
        agree [THEN conjunct2, THEN conjunct2, THEN mp, OF java])+
  have volume: "analyseNumberOfChanges changesWithRemovals =
       [''Significant changes - check if automated tests are required.'']"
    using closed_volume by (simp add: js_lines java_lines)
  have drops: "analyseDropScriptsNeeded changesWithRemovals =
       [''Create table but no drop table. Need to update the drop scripts?'']"
    using closed_drops c d1 d2 by (simp add: sql_lines)
  have equals: "analyseUseOfDotEquals changesWithRemovals =
       [''Found uses of .equals. Review these to check if StringUtils methods are a more appropriate choice.'']"
    using closed_equals e by (simp add: java_lines)
  show ?thesis
    using differ same volume drops equals by (intro conjI)
qed

subsection \<open>Bounds on the output\<close>

text \<open>
  C10. The volume, drop-script and dot-equals analysers emit at most one finding each, the
  database analyser at most two (its two asymmetry findings never occur together), and a
  run of \<open>analyse\<close> posts at most five tasks.
\<close>

theorem analysers_output_bounded:
  "length (analyseNumberOfChanges changes) \<le> 1
   \<and> length (analyseDBScriptSynergy changes) \<le> 2
   \<and> length (analyseDropScriptsNeeded changes) \<le> 1
   \<and> length (analyseUseOfDotEquals changes) \<le> 1
   \<and> \<not> (''MSSQL updated but not Oracle. Check this is ok.'' \<in> set (analyseDBScriptSynergy changes)
        \<and> ''Oracle updated but not MSSQL. Check this is ok.'' \<in> set (analyseDBScriptSynergy changes))
   \<and> length (postedTasks (snd (analyse st))) \<le> length (postedTasks st) + 5"
proof -
  have n: "length (analyseNumberOfChanges (fetchChanges st)) \<le> 1"
    and d: "length (analyseDBScriptSynergy (fetchChanges st)) \<le> 2"
    and s: "length (analyseDropScriptsNeeded (fetchChanges st)) \<le> 1"
    and e: "length (analyseUseOfDotEquals (fetchChanges st)) \<le> 1"
    by (rule length_analyseNumberOfChanges length_analyseDBScriptSynergy
        length_analyseDropScriptsNeeded length_analyseUseOfDotEquals)+
  have "length (postedTasks (snd (analyse st))) =
          length (postedTasks st)
          + (length (analyseNumberOfChanges (fetchChanges st))
             + length (analyseDBScriptSynergy (fetchChanges st))
             + length (analyseDropScriptsNeeded (fetchChanges st))
             + length (analyseUseOfDotEquals (fetchChanges st)))"
    by (simp add: analyse_eq postedTasks_fold_addTask postedTasks_post_comment)
  then have run: "length (postedTasks (snd (analyse st))) \<le> length (postedTasks st) + 5"
    using n d s e by linarith
  have excl: "\<not> (''MSSQL updated but not Oracle. Check this is ok.'' \<in> set (analyseDBScriptSynergy changes)
        \<and> ''Oracle updated but not MSSQL. Check this is ok.'' \<in> set (analyseDBScriptSynergy changes))"
    by (cases "\<exists>c\<in>set changes. str_includes (path c) ''/mssql/''";
        cases "\<exists>c\<in>set changes. str_includes (path c) ''/oracle/''")
       (simp_all add: analyseDBScriptSynergy_eq Let_def)
  show ?thesis
    using run excl length_analyseNumberOfChanges [of changes]
      length_analyseDBScriptSynergy [of changes] length_analyseDropScriptsNeeded [of changes]
      length_analyseUseOfDotEquals [of changes]
    by blast
qed

text \<open>
  The example review stays within the bound.
\<close>

theorem analysers_output_bounded_witness:
  "length (postedTasks (snd (analyse exampleReview))) \<le> 5"
proof -
  have "length (postedTasks exampleReview) = 0"
    by (simp add: exampleReview_def)
  then show ?thesis
    using analysers_output_bounded [of "fetchChanges exampleReview" exampleReview]
    by linarith
qed

end
